theory Spec2Isabelle
  imports Complex_Main
begin

section \<open>JavaScript numbers\<close>

text \<open>
  A JavaScript number is a finite value, one of the two infinities, or NaN. Finite
  values are modelled as reals: rounding, overflow and the sign of zero are left out.
  The operations below follow IEEE 754 on the special values, so that every comparison
  with NaN is false and \<open>Math.max\<close> of a NaN is NaN.
\<close>

datatype jsnum = Fin real | PInf | NInf | NaN

fun isFinite :: "jsnum \<Rightarrow> bool" where
  "isFinite (Fin a) = True"
| "isFinite PInf = False"
| "isFinite NInf = False"
| "isFinite NaN = False"

fun jle :: "jsnum \<Rightarrow> jsnum \<Rightarrow> bool" where
  "jle NaN b = False"
| "jle a NaN = False"
| "jle (Fin a) (Fin b) = (a \<le> b)"
| "jle NInf b = True"
| "jle a PInf = True"
| "jle PInf b = False"
| "jle (Fin a) NInf = False"

fun jlt :: "jsnum \<Rightarrow> jsnum \<Rightarrow> bool" where
  "jlt NaN b = False"
| "jlt a NaN = False"
| "jlt (Fin a) (Fin b) = (a < b)"
| "jlt PInf b = False"
| "jlt a NInf = False"
| "jlt NInf b = True"
| "jlt (Fin a) PInf = True"

definition jge :: "jsnum \<Rightarrow> jsnum \<Rightarrow> bool" where
  "jge a b = jle b a"

fun jneg :: "jsnum \<Rightarrow> jsnum" where
  "jneg (Fin a) = Fin (- a)"
| "jneg PInf = NInf"
| "jneg NInf = PInf"
| "jneg NaN = NaN"

fun jadd :: "jsnum \<Rightarrow> jsnum \<Rightarrow> jsnum" where
  "jadd NaN b = NaN"
| "jadd a NaN = NaN"
| "jadd (Fin a) (Fin b) = Fin (a + b)"
| "jadd PInf NInf = NaN"
| "jadd NInf PInf = NaN"
| "jadd PInf b = PInf"
| "jadd NInf b = NInf"
| "jadd (Fin a) b = b"

definition jsub :: "jsnum \<Rightarrow> jsnum \<Rightarrow> jsnum" where
  "jsub a b = jadd a (jneg b)"

fun jmul :: "jsnum \<Rightarrow> jsnum \<Rightarrow> jsnum" where
  "jmul NaN b = NaN"
| "jmul a NaN = NaN"
| "jmul (Fin a) (Fin b) = Fin (a * b)"
| "jmul (Fin a) PInf = (if a = 0 then NaN else if 0 < a then PInf else NInf)"
| "jmul (Fin a) NInf = (if a = 0 then NaN else if 0 < a then NInf else PInf)"
| "jmul PInf (Fin b) = (if b = 0 then NaN else if 0 < b then PInf else NInf)"
| "jmul NInf (Fin b) = (if b = 0 then NaN else if 0 < b then NInf else PInf)"
| "jmul PInf PInf = PInf"
| "jmul PInf NInf = NInf"
| "jmul NInf PInf = NInf"
| "jmul NInf NInf = PInf"

fun jdiv :: "jsnum \<Rightarrow> jsnum \<Rightarrow> jsnum" where
  "jdiv NaN b = NaN"
| "jdiv a NaN = NaN"
| "jdiv (Fin a) (Fin b) =
     (if b = 0 then (if a = 0 then NaN else if 0 < a then PInf else NInf)
      else Fin (a / b))"
| "jdiv (Fin a) b = Fin 0"
| "jdiv PInf (Fin b) = (if b < 0 then NInf else PInf)"
| "jdiv NInf (Fin b) = (if b < 0 then PInf else NInf)"
| "jdiv a b = NaN"

fun jabs :: "jsnum \<Rightarrow> jsnum" where
  "jabs (Fin a) = Fin \<bar>a\<bar>"
| "jabs PInf = PInf"
| "jabs NInf = PInf"
| "jabs NaN = NaN"

fun jsign :: "jsnum \<Rightarrow> jsnum" where
  "jsign (Fin a) = Fin (sgn a)"
| "jsign PInf = Fin 1"
| "jsign NInf = Fin (- 1)"
| "jsign NaN = NaN"

fun jmax :: "jsnum \<Rightarrow> jsnum \<Rightarrow> jsnum" where
  "jmax NaN b = NaN"
| "jmax a NaN = NaN"
| "jmax a b = (if jle a b then b else a)"

fun jmin :: "jsnum \<Rightarrow> jsnum \<Rightarrow> jsnum" where
  "jmin NaN b = NaN"
| "jmin a NaN = NaN"
| "jmin a b = (if jle a b then a else b)"

fun jsin :: "jsnum \<Rightarrow> jsnum" where
  "jsin (Fin a) = Fin (sin a)"
| "jsin a = NaN"

fun jcos :: "jsnum \<Rightarrow> jsnum" where
  "jcos (Fin a) = Fin (cos a)"
| "jcos a = NaN"

section \<open>Parameters and their normalisation\<close>

text \<open>
  The parameter object of \<open>readParams\<close>: seven numeric fields, each the result of
  \<open>Number(...)\<close>, and the style string. A field that is missing or not a number fails
  \<open>Number.isFinite\<close> exactly as NaN does, so NaN stands for it.
\<close>

record params =
  width :: jsnum
  height :: jsnum
  faceWidth :: jsnum
  profileDepth :: jsnum
  lipWidth :: jsnum
  lipDepth :: jsnum
  clearance :: jsnum
  style :: string

definition defaults :: params where
  "defaults = \<lparr> width = Fin 600, height = Fin 400, faceWidth = Fin 20,
     profileDepth = Fin 14, lipWidth = Fin 4, lipDepth = Fin 4,
     clearance = Fin 0.4, style = ''minimal'' \<rparr>"

text \<open>The keys of \<open>numericDefaults\<close>, with reading and writing a field by key.\<close>

datatype key = K_width | K_height | K_faceWidth | K_profileDepth | K_lipWidth
  | K_lipDepth | K_clearance

fun getKey :: "key \<Rightarrow> params \<Rightarrow> jsnum" where
  "getKey K_width p = width p"
| "getKey K_height p = height p"
| "getKey K_faceWidth p = faceWidth p"
| "getKey K_profileDepth p = profileDepth p"
| "getKey K_lipWidth p = lipWidth p"
| "getKey K_lipDepth p = lipDepth p"
| "getKey K_clearance p = clearance p"

fun setKey :: "key \<Rightarrow> jsnum \<Rightarrow> params \<Rightarrow> params" where
  "setKey K_width v p = p\<lparr>width := v\<rparr>"
| "setKey K_height v p = p\<lparr>height := v\<rparr>"
| "setKey K_faceWidth v p = p\<lparr>faceWidth := v\<rparr>"
| "setKey K_profileDepth v p = p\<lparr>profileDepth := v\<rparr>"
| "setKey K_lipWidth v p = p\<lparr>lipWidth := v\<rparr>"
| "setKey K_lipDepth v p = p\<lparr>lipDepth := v\<rparr>"
| "setKey K_clearance v p = p\<lparr>clearance := v\<rparr>"

definition numericDefaults :: "(key \<times> jsnum) list" where
  "numericDefaults =
     [(K_width, width defaults), (K_height, height defaults),
      (K_faceWidth, faceWidth defaults), (K_profileDepth, profileDepth defaults),
      (K_lipWidth, lipWidth defaults), (K_lipDepth, lipDepth defaults),
      (K_clearance, clearance defaults)]"

text \<open>The body of the loop over \<open>Object.entries(numericDefaults)\<close>.\<close>

fun applyFallback :: "key \<times> jsnum \<Rightarrow> params \<Rightarrow> params" where
  "applyFallback (k, fallback) sane =
     (if \<not> isFinite (getKey k sane) \<or> jle (getKey k sane) (Fin 0)
      then setKey k fallback sane else sane)"

definition normalizeParams :: "params \<Rightarrow> params" where
  "normalizeParams p =
     (let sane = fold applyFallback numericDefaults p;
          sane = (if jge (lipWidth sane) (faceWidth sane)
                  then sane\<lparr>lipWidth := jmax (Fin 2) (jmul (faceWidth sane) (Fin 0.45))\<rparr>
                  else sane);
          sane = (if jge (lipDepth sane) (profileDepth sane)
                  then sane\<lparr>lipDepth := jmax (Fin 2) (jmul (profileDepth sane) (Fin 0.35))\<rparr>
                  else sane)
      in sane)"

section \<open>Profiles\<close>

text \<open>
  A \<open>THREE.Shape\<close> is the list of its path commands, in the order of the calls.
\<close>

datatype pathcmd = MoveTo jsnum jsnum | LineTo jsnum jsnum

type_synonym shape = "pathcmd list"

fun pathPoint :: "pathcmd \<Rightarrow> jsnum \<times> jsnum" where
  "pathPoint (MoveTo x y) = (x, y)"
| "pathPoint (LineTo x y) = (x, y)"

definition buildProfileShape :: "jsnum \<Rightarrow> jsnum \<Rightarrow> jsnum \<Rightarrow> jsnum \<Rightarrow> shape" where
  "buildProfileShape fw pd lw ld =
     [MoveTo (Fin 0) (Fin 0),
      LineTo fw (Fin 0),
      LineTo fw pd,
      LineTo (jsub fw lw) pd,
      LineTo (jsub fw lw) ld,
      LineTo (Fin 0) ld,
      LineTo (Fin 0) (Fin 0)]"

text \<open>The local \<open>lipShape\<close> of \<open>createLipOverlay\<close>.\<close>

definition lipShape :: "params \<Rightarrow> shape" where
  "lipShape p =
     (let fw = faceWidth p; pd = profileDepth p; lw = lipWidth p; ld = lipDepth p in
      [MoveTo (jdiv (jneg fw) (Fin 2)) (jdiv (jneg pd) (Fin 2)),
       LineTo (jadd (jdiv (jneg fw) (Fin 2)) lw) (jdiv (jneg pd) (Fin 2)),
       LineTo (jadd (jdiv (jneg fw) (Fin 2)) lw) (jadd (jdiv (jneg pd) (Fin 2)) ld),
       LineTo (jdiv (jneg fw) (Fin 2)) (jadd (jdiv (jneg pd) (Fin 2)) ld),
       LineTo (jdiv (jneg fw) (Fin 2)) (jdiv (jneg pd) (Fin 2))])"

section \<open>Geometries\<close>

text \<open>
  \<open>THREE.ExtrudeGeometry\<close> belongs to the three.js library, not to this repository:
  it is a parameter of the model, a function from the shape and the options object to
  a geometry. Of a geometry the model keeps the vertex positions and what reading
  \<open>geometry.parameters.depth\<close> gives: \<open>None\<close> when the \<open>parameters\<close> object has no
  property \<open>depth\<close>, so that the read yields \<open>undefined\<close>. Normals are not modelled.
  An option the caller leaves out of the options object is \<open>None\<close>.
\<close>

record extrudeSettings =
  depth :: jsnum
  bevelEnabled :: bool
  bevelThickness :: "jsnum option"
  bevelSize :: "jsnum option"
  bevelSegments :: "nat option"

type_synonym vertex = "jsnum \<times> jsnum \<times> jsnum"

record buffer_geometry =
  attr_position :: "vertex list"
  parameters_depth :: "jsnum option"

type_synonym extruder = "shape \<Rightarrow> extrudeSettings \<Rightarrow> buffer_geometry"

text \<open>Numeric coercion of a property read: \<open>undefined\<close> becomes NaN.\<close>

fun toNumber :: "jsnum option \<Rightarrow> jsnum" where
  "toNumber None = NaN"
| "toNumber (Some v) = v"

definition translate :: "jsnum \<Rightarrow> jsnum \<Rightarrow> jsnum \<Rightarrow> buffer_geometry \<Rightarrow> buffer_geometry" where
  "translate tx ty tz g =
     g\<lparr>attr_position := map (\<lambda>(x, y, z). (jadd x tx, jadd y ty, jadd z tz)) (attr_position g)\<rparr>"

definition rotateY :: "jsnum \<Rightarrow> buffer_geometry \<Rightarrow> buffer_geometry" where
  "rotateY a g =
     g\<lparr>attr_position :=
        map (\<lambda>(x, y, z). (jadd (jmul (jcos a) x) (jmul (jsin a) z), y,
                          jadd (jmul (jneg (jsin a)) x) (jmul (jcos a) z)))
          (attr_position g)\<rparr>"

definition rotateX :: "jsnum \<Rightarrow> buffer_geometry \<Rightarrow> buffer_geometry" where
  "rotateX a g =
     g\<lparr>attr_position :=
        map (\<lambda>(x, y, z). (x, jsub (jmul (jcos a) y) (jmul (jsin a) z),
                          jadd (jmul (jsin a) y) (jmul (jcos a) z)))
          (attr_position g)\<rparr>"

text \<open>The loop body of \<open>carveWoodgrain\<close>, and the loop over the vertices.\<close>

definition grainVertex :: "jsnum \<Rightarrow> jsnum \<Rightarrow> vertex \<Rightarrow> vertex" where
  "grainVertex len intensity v =
     (case v of (x, y, z) \<Rightarrow>
        let grainWave = jsin (jadd (jmul (jmul (jdiv z len) (Fin pi)) (Fin 8)) (jmul x (Fin 0.08)));
            ripple = jmul (jcos (jmul (jmul (jdiv z len) (Fin pi)) (Fin 3))) (Fin 0.6);
            bump = jmul (jadd grainWave ripple) intensity
        in (jadd x (jmul bump (Fin 0.15)), jadd y (jmul bump (Fin 0.35)), z))"

definition carveWoodgrain :: "buffer_geometry \<Rightarrow> jsnum \<Rightarrow> jsnum \<Rightarrow> buffer_geometry" where
  "carveWoodgrain g len intensity =
     g\<lparr>attr_position := map (grainVertex len intensity) (attr_position g)\<rparr>"

text \<open>The loop body of \<open>addMiterEnds\<close> (\<open>continue\<close> leaves the vertex as it is).\<close>

definition miterVertex :: "jsnum \<Rightarrow> jsnum \<Rightarrow> jsnum \<Rightarrow> jsnum \<Rightarrow> vertex \<Rightarrow> vertex" where
  "miterVertex fw pd half taperSpan v =
     (case v of (x, y, z) \<Rightarrow>
        let distanceFromEnd = jsub half (jabs z) in
        if jge distanceFromEnd taperSpan \<or> jlt distanceFromEnd (Fin 0) then (x, y, z)
        else
          let t = jsub (Fin 1) (jdiv distanceFromEnd taperSpan);
              sign = jsign z;
              skew = jmul (jmul (jadd fw (jmul pd (Fin 0.8))) t) sign
          in (jadd x skew, jadd y (jmul skew (Fin 0.55)), z))"

definition addMiterEnds :: "buffer_geometry \<Rightarrow> jsnum \<Rightarrow> params \<Rightarrow> buffer_geometry" where
  "addMiterEnds g len p =
     (let fw = faceWidth p; pd = profileDepth p;
          half = jdiv len (Fin 2);
          taperSpan = jmul (jmax fw pd) (Fin 1.1)
      in g\<lparr>attr_position := map (miterVertex fw pd half taperSpan) (attr_position g)\<rparr>)"

section \<open>Meshes\<close>

text \<open>
  The arguments of \<open>MeshStandardMaterial\<close>; the colour is the hexadecimal constant of
  the source, written as its digits. A mesh starts at position (0, 0, 0) with no
  rotation; of the rotation only \<open>rotation.z\<close> is ever assigned.
\<close>

record material =
  color :: string
  roughness :: real
  metalness :: real
  transparent :: "bool option"
  opacity :: "real option"

record mesh =
  geometry :: buffer_geometry
  material :: material
  position :: vertex
  rotation_z :: jsnum

definition newMesh :: "buffer_geometry \<Rightarrow> material \<Rightarrow> mesh" where
  "newMesh g m = \<lparr> geometry = g, material = m, position = (Fin 0, Fin 0, Fin 0),
     rotation_z = Fin 0 \<rparr>"

definition createPiece :: "extruder \<Rightarrow> jsnum \<Rightarrow> string \<Rightarrow> params \<Rightarrow> mesh" where
  "createPiece ext len orientation p =
     (let fw = faceWidth p; pd = profileDepth p; lw = lipWidth p; ld = lipDepth p;
          shape = buildProfileShape fw pd lw ld;
          bevel = (style p = ''bold'');
          settings = \<lparr> depth = len, bevelEnabled = bevel,
            bevelThickness = Some (if bevel then Fin 1.2 else Fin 0),
            bevelSize = Some (if bevel then Fin 0.8 else Fin 0),
            bevelSegments = Some 2 \<rparr>;
          g = ext shape settings;
          g = translate (jdiv (jneg fw) (Fin 2)) (jdiv (jneg pd) (Fin 2))
                (jdiv (jneg len) (Fin 2)) g;
          g = addMiterEnds g len p;
          g = (if style p = ''wood'' then carveWoodgrain g len (Fin 0.55) else g);
          g = (if orientation = ''horizontal'' then rotateY (Fin (pi / 2)) g
               else if orientation = ''vertical'' then rotateX (Fin (- pi / 2)) g
               else g);
          m = \<lparr> color = (if style p = ''wood'' then ''ae8a63''
                          else if style p = ''bold'' then ''7cc7ff'' else ''9ad4ff''),
                roughness = (if style p = ''wood'' then 0.9 else 0.45),
                metalness = 0.05, transparent = None, opacity = None \<rparr>
      in newMesh g m)"

definition createLipOverlay :: "extruder \<Rightarrow> jsnum \<Rightarrow> string \<Rightarrow> params \<Rightarrow> mesh" where
  "createLipOverlay ext len orientation p =
     (let g = ext (lipShape p)
                \<lparr> depth = len, bevelEnabled = False, bevelThickness = None,
                  bevelSize = None, bevelSegments = None \<rparr>;
          g = (if orientation = ''horizontal'' then rotateY (Fin (pi / 2)) g
               else if orientation = ''vertical'' then rotateX (Fin (- pi / 2)) g
               else g);
          g = translate (Fin 0) (Fin 0) (jdiv (jneg len) (Fin 2)) g;
          m = \<lparr> color = ''ffe0a3'', roughness = 0.45, metalness = 0.05,
                transparent = Some True, opacity = Some 0.7 \<rparr>
      in newMesh g m)"

text \<open>The locals of \<open>createCornerInsert\<close> and its shape.\<close>

definition insertThickness :: "params \<Rightarrow> jsnum" where
  "insertThickness p = jmax (Fin 3) (jmul (profileDepth p) (Fin 0.35))"

definition insertLeg :: "params \<Rightarrow> jsnum" where
  "insertLeg p = jmax (Fin 24) (jmul (faceWidth p) (Fin 1.4))"

definition taper :: "params \<Rightarrow> jsnum" where
  "taper p = jmax (Fin 6) (jmul (faceWidth p) (Fin 0.4))"

definition insertShape :: "params \<Rightarrow> shape" where
  "insertShape p =
     [MoveTo (Fin 0) (Fin 0),
      LineTo (insertLeg p) (Fin 0),
      LineTo (insertLeg p) (insertThickness p),
      LineTo (taper p) (insertThickness p),
      LineTo (taper p) (insertLeg p),
      LineTo (Fin 0) (insertLeg p),
      LineTo (Fin 0) (Fin 0)]"

definition insertSettings :: "params \<Rightarrow> extrudeSettings" where
  "insertSettings p =
     \<lparr> depth = jmax (Fin 6) (jadd (jmul (lipDepth p) (Fin 1.1)) (clearance p)),
       bevelEnabled = False, bevelThickness = None, bevelSize = None,
       bevelSegments = None \<rparr>"

definition createCornerInsert :: "extruder \<Rightarrow> params \<Rightarrow> mesh" where
  "createCornerInsert ext p =
     (let g = ext (insertShape p) (insertSettings p);
          g = translate (jdiv (jneg (insertLeg p)) (Fin 2)) (jdiv (jneg (insertLeg p)) (Fin 2))
                (jdiv (jneg (toNumber (parameters_depth g))) (Fin 2)) g;
          m = \<lparr> color = ''72f1b8'', roughness = 0.5, metalness = 0.05,
                transparent = None, opacity = None \<rparr>
      in newMesh g m)"

section \<open>Frame assembly\<close>

text \<open>
  The derived lengths, computed as locals in both \<open>buildFrame\<close> and \<open>downloadZip\<close>
  from the normalised parameters.
\<close>

definition innerWidth :: "params \<Rightarrow> jsnum" where
  "innerWidth p = jadd (width p) (jmul (clearance p) (Fin 2))"

definition innerHeight :: "params \<Rightarrow> jsnum" where
  "innerHeight p = jadd (height p) (jmul (clearance p) (Fin 2))"

definition horizontalLength :: "params \<Rightarrow> jsnum" where
  "horizontalLength p = jadd (innerWidth p) (jmul (lipWidth p) (Fin 2))"

definition verticalLength :: "params \<Rightarrow> jsnum" where
  "verticalLength p = jadd (innerHeight p) (jmul (lipWidth p) (Fin 2))"

definition offsetX :: "params \<Rightarrow> jsnum" where
  "offsetX p = jdiv (innerWidth p) (Fin 2)"

definition offsetY :: "params \<Rightarrow> jsnum" where
  "offsetY p = jdiv (innerHeight p) (Fin 2)"

definition insertOffset :: "params \<Rightarrow> jsnum" where
  "insertOffset p = jmul (jmin (innerWidth p) (innerHeight p)) (Fin 0.25)"

definition outerWidth :: "params \<Rightarrow> jsnum" where
  "outerWidth p = jadd (innerWidth p) (jmul (faceWidth p) (Fin 2))"

definition outerHeight :: "params \<Rightarrow> jsnum" where
  "outerHeight p = jadd (innerHeight p) (jmul (faceWidth p) (Fin 2))"

text \<open>
  The module state that \<open>buildFrame\<close> changes: the frame groups held by the scene (the
  lights and the grid that \<open>initThree\<close> adds are left out), the module variable
  \<open>frameGroup\<close> (\<open>None\<close> while it is undefined), the four numbers of the summary line
  (their formatting by \<open>toFixed(1)\<close> is not modelled), and the group the camera was
  last fitted to (the camera arithmetic of \<open>fitCameraToFrame\<close> is not modelled).
\<close>

record state =
  scene :: "mesh list list"
  frameGroup :: "mesh list option"
  summary :: "(jsnum \<times> jsnum \<times> jsnum \<times> jsnum) option"
  cameraFittedTo :: "mesh list option"

datatype error = ReferenceError string

definition setPositionX :: "jsnum \<Rightarrow> mesh \<Rightarrow> mesh" where
  "setPositionX v m = (case position m of (x, y, z) \<Rightarrow> m\<lparr>position := (v, y, z)\<rparr>)"

definition setPositionY :: "jsnum \<Rightarrow> mesh \<Rightarrow> mesh" where
  "setPositionY v m = (case position m of (x, y, z) \<Rightarrow> m\<lparr>position := (x, v, z)\<rparr>)"

text \<open>
  \<open>buildFrame\<close> reads the identifier \<open>lipDepth\<close> (in the third argument of the first
  \<open>position.set\<close>) although neither the function nor the module declares it: its own
  destructuring takes \<open>width\<close>, \<open>height\<close>, \<open>faceWidth\<close>, \<open>lipWidth\<close> and \<open>clearance\<close>
  only. The identifier therefore resolves in the global scope, which the model takes as
  the parameter \<open>glob\<close>: \<open>None\<close> when the global scope has no binding of that name, so
  that the read throws a ReferenceError, and \<open>Some v\<close> when it has one, \<open>v\<close> being the
  bound value coerced to a number by the multiplication (NaN for a value that is not
  numeric, such as a page element). The result is \<open>Inl\<close> of the error and the state at
  the throw, or \<open>Inr\<close> of the final state.
\<close>

definition buildFrame ::
  "extruder \<Rightarrow> jsnum option \<Rightarrow> params \<Rightarrow> state \<Rightarrow> (error \<times> state) + state" where
  "buildFrame ext glob p s0 =
     (let safeParams = normalizeParams p;
          s = (case frameGroup s0 of Some old \<Rightarrow> s0\<lparr>scene := remove1 old (scene s0)\<rparr>
               | None \<Rightarrow> s0);
          s = s\<lparr>frameGroup := Some []\<rparr>;
          fw = faceWidth safeParams; lw = lipWidth safeParams;
          top = setPositionY (jadd (offsetY safeParams) (jdiv (jsub fw lw) (Fin 2)))
                  (createPiece ext (horizontalLength safeParams) ''horizontal'' safeParams);
          bottom = setPositionY
                  (jneg (jadd (offsetY safeParams) (jdiv (jsub fw lw) (Fin 2))))
                  (createPiece ext (horizontalLength safeParams) ''horizontal'' safeParams);
          left = setPositionX
                  (jneg (jadd (offsetX safeParams) (jdiv (jsub fw lw) (Fin 2))))
                  (createPiece ext (verticalLength safeParams) ''vertical'' safeParams);
          right = setPositionX (jadd (offsetX safeParams) (jdiv (jsub fw lw) (Fin 2)))
                  (createPiece ext (verticalLength safeParams) ''vertical'' safeParams);
          lipTop = (createLipOverlay ext (horizontalLength safeParams) ''horizontal'' safeParams)
                     \<lparr>position := position top\<rparr>;
          lipBottom = (createLipOverlay ext (horizontalLength safeParams) ''horizontal'' safeParams)
                     \<lparr>position := position bottom\<rparr>;
          lipLeft = (createLipOverlay ext (verticalLength safeParams) ''vertical'' safeParams)
                     \<lparr>position := position left\<rparr>;
          lipRight = (createLipOverlay ext (verticalLength safeParams) ''vertical'' safeParams)
                     \<lparr>position := position right\<rparr>;
          insert = createCornerInsert ext safeParams;
          dx = jsub (offsetX safeParams) (insertOffset safeParams);
          dy = jsub (offsetY safeParams) (insertOffset safeParams)
      in case glob of
           None \<Rightarrow> Inl (ReferenceError ''lipDepth'', s)
         | Some lipDepthValue \<Rightarrow>
             let z = jmul lipDepthValue (Fin 0.2);
                 inserts =
                   [insert\<lparr>position := (dx, dy, z)\<rparr>,
                    insert\<lparr>position := (dx, jneg dy, z), rotation_z := Fin (pi / 2)\<rparr>,
                    insert\<lparr>position := (jneg dx, dy, z), rotation_z := Fin (- pi / 2)\<rparr>,
                    insert\<lparr>position := (jneg dx, jneg dy, z), rotation_z := Fin pi\<rparr>];
                 grp = [top, bottom, left, right, lipTop, lipBottom, lipLeft, lipRight]
                         @ inserts;
                 s = s\<lparr>frameGroup := Some grp, scene := scene s @ [grp]\<rparr>;
                 s = s\<lparr>summary := Some (innerWidth safeParams, innerHeight safeParams,
                                         outerWidth safeParams, outerHeight safeParams)\<rparr>;
                 s = s\<lparr>cameraFittedTo := Some grp\<rparr>
             in Inr s)"

text \<open>
  \<open>downloadZip\<close>, up to the serialiser and the archive: the named meshes it exports,
  from the parameters that \<open>readParams\<close> returned.
\<close>

definition downloadZip :: "extruder \<Rightarrow> params \<Rightarrow> (string \<times> mesh) list" where
  "downloadZip ext raw =
     (let p = normalizeParams raw;
          rail = (\<lambda>len orientation.
                    (createPiece ext len orientation p)\<lparr>position := (Fin 0, Fin 0, Fin 0)\<rparr>)
      in [(''frame_top.stl'', rail (horizontalLength p) ''horizontal''),
          (''frame_bottom.stl'', rail (horizontalLength p) ''horizontal''),
          (''frame_left.stl'', rail (verticalLength p) ''vertical''),
          (''frame_right.stl'', rail (verticalLength p) ''vertical''),
          (''corner_insert_A.stl'', createCornerInsert ext p),
          (''corner_insert_B.stl'', createCornerInsert ext p)])"

section \<open>The variant in src/js/app.js\<close>

text \<open>
  \<open>src/js/app.js\<close> has the same \<open>normalizeParams\<close>, \<open>buildProfileShape\<close> and
  \<open>createLipOverlay\<close> (up to the overlay's material), no corner inserts and no
  \<open>addMiterEnds\<close>; its \<open>createPiece\<close> and its wood treatment \<open>jitterWood\<close> differ.
\<close>

definition jitterVertex :: "jsnum \<Rightarrow> vertex \<Rightarrow> vertex" where
  "jitterVertex intensity v =
     (case v of (x, y, z) \<Rightarrow>
        let noise = jmul (jmul (jsin (jmul x (Fin 0.18))) (jcos (jmul z (Fin 0.12)))) intensity
        in (jadd x (jmul noise (Fin 0.6)), y, jadd z noise))"

definition jitterWood :: "buffer_geometry \<Rightarrow> jsnum \<Rightarrow> buffer_geometry" where
  "jitterWood g intensity = g\<lparr>attr_position := map (jitterVertex intensity) (attr_position g)\<rparr>"

definition createPiece_appjs :: "extruder \<Rightarrow> jsnum \<Rightarrow> string \<Rightarrow> params \<Rightarrow> mesh" where
  "createPiece_appjs ext len orientation p =
     (let fw = faceWidth p; pd = profileDepth p; lw = lipWidth p; ld = lipDepth p;
          shape = buildProfileShape fw pd lw ld;
          bevel = (style p = ''bold'');
          settings = \<lparr> depth = len, bevelEnabled = bevel,
            bevelThickness = Some (if bevel then Fin 1.2 else Fin 0),
            bevelSize = Some (if bevel then Fin 0.8 else Fin 0),
            bevelSegments = Some 2 \<rparr>;
          g = ext shape settings;
          g = translate (jdiv (jneg fw) (Fin 2)) (jdiv (jneg pd) (Fin 2))
                (jdiv (jneg len) (Fin 2)) g;
          g = (if style p = ''wood'' then jitterWood g (Fin 0.35) else g);
          g = (if orientation = ''horizontal'' then rotateY (Fin (pi / 2)) g
               else if orientation = ''vertical'' then rotateX (Fin (- pi / 2)) g
               else g);
          m = \<lparr> color = (if style p = ''wood'' then ''b18f6a''
                          else if style p = ''bold'' then ''7cc7ff'' else ''9ad4ff''),
                roughness = (if style p = ''wood'' then 0.8 else 0.45),
                metalness = 0.05, transparent = None, opacity = None \<rparr>
      in newMesh g m)"

section \<open>An extruder to evaluate with\<close>

text \<open>
  A small stand-in for the library's extrusion, used where a theorem evaluates the
  model on concrete input: the points of the shape at z = 0 followed by the same points
  at z = depth. Its \<open>parameters\<close> object holds the shape and the options object, as
  three.js's \<open>ExtrudeGeometry\<close> does (\<open>parameters = {shapes, options}\<close>), so it has no
  property \<open>depth\<close> of its own.
\<close>

definition prismExtrude :: extruder where
  "prismExtrude sh st =
     \<lparr> attr_position =
         map (\<lambda>c. (fst (pathPoint c), snd (pathPoint c), Fin 0)) sh
         @ map (\<lambda>c. (fst (pathPoint c), snd (pathPoint c), depth st)) sh,
       parameters_depth = None \<rparr>"

text \<open>The same stand-in, with the requested depth reported under \<open>parameters.depth\<close>.\<close>

definition prismExtrudeDepth :: extruder where
  "prismExtrudeDepth sh st = (prismExtrude sh st)\<lparr>parameters_depth := Some (depth st)\<rparr>"


section \<open>Auxiliary notions for the statements\<close>

text \<open>What one field becomes in the defaulting loop, given its default.\<close>

definition orDefault :: "jsnum \<Rightarrow> real \<Rightarrow> real" where
  "orDefault v d = (case v of Fin a \<Rightarrow> (if 0 < a then a else d) | _ \<Rightarrow> d)"

text \<open>What a lip becomes in the cross-field step, given the enclosing dimension.\<close>

definition normLip :: "real \<Rightarrow> real \<Rightarrow> real \<Rightarrow> real" where
  "normLip outer lip factor = (if outer \<le> lip then max 2 (outer * factor) else lip)"

definition finitePositive :: "jsnum \<Rightarrow> bool" where
  "finitePositive v = (isFinite v \<and> jlt (Fin 0) v)"

text \<open>
  The skew of the end taper as the specification words it, for a piece of length \<open>len\<close>
  and a vertex at axial coordinate \<open>z\<close>; it is compared with \<open>addMiterEnds\<close> below.
\<close>

definition taperSkew :: "real \<Rightarrow> real \<Rightarrow> real \<Rightarrow> real \<Rightarrow> real" where
  "taperSkew fw pd len z =
     (let half = len / 2; taperSpan = 1.1 * max fw pd; distanceFromEnd = half - \<bar>z\<bar> in
      if 0 \<le> distanceFromEnd \<and> distanceFromEnd < taperSpan
      then (fw + 0.8 * pd) * (1 - distanceFromEnd / taperSpan) * sgn z
      else 0)"

text \<open>The frame group of the state a build ends in, by return or by throw.\<close>

definition frameOf :: "(error \<times> state) + state \<Rightarrow> mesh list option" where
  "frameOf r = (case r of Inl (e, s) \<Rightarrow> frameGroup s | Inr s \<Rightarrow> frameGroup s)"





section \<open>Properties of the normaliser\<close>

lemma fallback_value:
  "(if \<not> isFinite v \<or> jle v (Fin 0) then Fin d else v) = Fin (orDefault v d)"
  by (cases v) (simp_all add: orDefault_def)

lemma applyFallback_step:
  "applyFallback (k, Fin d) p = setKey k (Fin (orDefault (getKey k p) d)) p"
proof -
  have same: "setKey k (getKey k p) p = p" by (cases k) simp_all
  show ?thesis
  proof (cases "\<not> isFinite (getKey k p) \<or> jle (getKey k p) (Fin 0)")
    case True
    with fallback_value [of "getKey k p" d] show ?thesis by simp
  next
    case False
    with fallback_value [of "getKey k p" d] have "Fin (orDefault (getKey k p) d) = getKey k p"
      by simp
    with False same show ?thesis by simp
  qed
qed

lemma fold_applyFallback:
  "fold applyFallback numericDefaults p =
     \<lparr> width = Fin (orDefault (width p) 600), height = Fin (orDefault (height p) 400),
       faceWidth = Fin (orDefault (faceWidth p) 20),
       profileDepth = Fin (orDefault (profileDepth p) 14),
       lipWidth = Fin (orDefault (lipWidth p) 4),
       lipDepth = Fin (orDefault (lipDepth p) 4),
       clearance = Fin (orDefault (clearance p) 0.4), style = style p \<rparr>"
  by (simp add: numericDefaults_def defaults_def applyFallback_step
        del: applyFallback.simps)

lemma jmax_Fin: "jmax (Fin a) (Fin b) = Fin (max a b)"
  by (simp add: max_def)

lemma jmin_Fin: "jmin (Fin a) (Fin b) = Fin (min a b)"
  by (simp add: min_def)

lemma jge_Fin: "jge (Fin a) (Fin b) = (b \<le> a)"
  by (simp add: jge_def)

lemma jsub_Fin: "jsub (Fin a) (Fin b) = Fin (a - b)"
  by (simp add: jsub_def)

lemma orDefault_pos: "0 < d \<Longrightarrow> 0 < orDefault v d"
  by (cases v) (simp_all add: orDefault_def)

lemma orDefault_Fin: "0 < a \<Longrightarrow> orDefault (Fin a) d = a"
  by (simp add: orDefault_def)

lemma normLip_pos: "0 < lip \<Longrightarrow> 0 < normLip outer lip factor"
  by (simp add: normLip_def max_def)

lemma normalizeParams_eq:
  "normalizeParams p =
     \<lparr> width = Fin (orDefault (width p) 600), height = Fin (orDefault (height p) 400),
       faceWidth = Fin (orDefault (faceWidth p) 20),
       profileDepth = Fin (orDefault (profileDepth p) 14),
       lipWidth = Fin (normLip (orDefault (faceWidth p) 20) (orDefault (lipWidth p) 4) 0.45),
       lipDepth = Fin (normLip (orDefault (profileDepth p) 14) (orDefault (lipDepth p) 4) 0.35),
       clearance = Fin (orDefault (clearance p) 0.4), style = style p \<rparr>"
  by (simp add: normalizeParams_def fold_applyFallback Let_def jge_Fin jmax_Fin normLip_def)

lemma normLip_idem: "normLip outer (normLip outer lip factor) factor = normLip outer lip factor"
  by (simp add: normLip_def)

lemma normalizeParams_idem: "normalizeParams (normalizeParams p) = normalizeParams p"
  by (subst (1 2) normalizeParams_eq)
     (simp add: normalizeParams_eq orDefault_pos normLip_pos orDefault_Fin normLip_idem)

text \<open>
  Claim C2 says that for every input the normalised parameters satisfy
  0 < lipWidth < faceWidth and 0 < lipDepth < profileDepth. The repair of a lip that is
  not smaller than its rail is \<open>Math.max(2, ...)\<close>, which is still not smaller when the
  rail itself is at most 2: with faceWidth = 1 and lipWidth = 5 the result has
  lipWidth = 2 and faceWidth = 1, and with profileDepth = 1 and lipDepth = 3 it has
  lipDepth = 2 and profileDepth = 1.
\<close>

theorem normalize_lip_escapes_rail:
  "lipWidth (normalizeParams (defaults\<lparr>faceWidth := Fin 1, lipWidth := Fin 5\<rparr>)) = Fin 2
   \<and> faceWidth (normalizeParams (defaults\<lparr>faceWidth := Fin 1, lipWidth := Fin 5\<rparr>)) = Fin 1
   \<and> \<not> jlt (lipWidth (normalizeParams (defaults\<lparr>faceWidth := Fin 1, lipWidth := Fin 5\<rparr>)))
           (faceWidth (normalizeParams (defaults\<lparr>faceWidth := Fin 1, lipWidth := Fin 5\<rparr>)))
   \<and> lipDepth (normalizeParams (defaults\<lparr>profileDepth := Fin 1, lipDepth := Fin 3\<rparr>)) = Fin 2
   \<and> profileDepth (normalizeParams (defaults\<lparr>profileDepth := Fin 1, lipDepth := Fin 3\<rparr>)) = Fin 1
   \<and> \<not> jlt (lipDepth (normalizeParams (defaults\<lparr>profileDepth := Fin 1, lipDepth := Fin 3\<rparr>)))
           (profileDepth (normalizeParams (defaults\<lparr>profileDepth := Fin 1, lipDepth := Fin 3\<rparr>)))"
  by (simp add: normalizeParams_eq defaults_def orDefault_def normLip_def)

text \<open>
  What does hold for every input: all four dimensions come out finite and positive,
  and a lip comes out smaller than its rail exactly when the rail is wider than 2 or
  the lip was smaller to begin with.
\<close>

lemma normalize_lip_bounds:
  "\<exists>fw pd lw ld. faceWidth (normalizeParams p) = Fin fw \<and> profileDepth (normalizeParams p) = Fin pd
     \<and> lipWidth (normalizeParams p) = Fin lw \<and> lipDepth (normalizeParams p) = Fin ld
     \<and> 0 < fw \<and> 0 < pd \<and> 0 < lw \<and> 0 < ld
     \<and> (lw < fw) = (2 < fw \<or> orDefault (lipWidth p) 4 < fw)
     \<and> (ld < pd) = (2 < pd \<or> orDefault (lipDepth p) 4 < pd)"
  apply (simp add: normalizeParams_eq orDefault_pos normLip_pos)
  apply (simp add: normLip_def max_def)
  done

text \<open>
  Claim C3 says that \<open>normalize\<close> replaces a style outside minimal, bold and wood by
  minimal. As stated it fails: \<open>normalizeParams\<close> never assigns the style, so
  ''neon'' comes back as ''neon''.
\<close>

theorem normalize_style_counterexample:
  "\<not> (\<forall>p. style p \<notin> {''minimal'', ''bold'', ''wood''} \<longrightarrow> style (normalizeParams p) = ''minimal'')"
proof
  assume "\<forall>p. style p \<notin> {''minimal'', ''bold'', ''wood''} \<longrightarrow> style (normalizeParams p) = ''minimal''"
  then have "style (defaults\<lparr>style := ''neon''\<rparr>) \<notin> {''minimal'', ''bold'', ''wood''}
      \<longrightarrow> style (normalizeParams (defaults\<lparr>style := ''neon''\<rparr>)) = ''minimal''"
    by blast
  then show False by (simp add: normalizeParams_eq)
qed

text \<open>
  Claim C3 as amended: \<open>normalizeParams\<close> returns the style of its input unchanged,
  whatever it is; and \<open>createPiece\<close> builds a piece whose style is neither bold nor wood
  exactly as it builds a minimal one (no bevel, no woodgrain, the minimal material).
\<close>

theorem normalize_style_passes_through:
  "style (normalizeParams p) = style p
   \<and> (style p \<noteq> ''bold'' \<and> style p \<noteq> ''wood'' \<longrightarrow>
        createPiece ext len orientation p = createPiece ext len orientation (p\<lparr>style := ''minimal''\<rparr>))"
  by (simp add: normalizeParams_eq createPiece_def addMiterEnds_def Let_def)

text \<open>Witness for C3: the style ''neon'', on the default dimensions.\<close>

theorem normalize_style_passes_through_witness:
  "style (normalizeParams (defaults\<lparr>style := ''neon''\<rparr>)) = ''neon''
   \<and> createPiece prismExtrude (Fin 608.8) ''horizontal'' (defaults\<lparr>style := ''neon''\<rparr>)
       = createPiece prismExtrude (Fin 608.8) ''horizontal'' defaults"
  using normalize_style_passes_through
    [of "defaults\<lparr>style := ''neon''\<rparr>" prismExtrude "Fin 608.8" "''horizontal''"]
  by (simp add: defaults_def)

text \<open>
  Claim C6 says that a finite clearance that is at least 0 is returned unchanged, so
  that 0 is preserved. As stated it fails: the defaulting loop replaces every value
  that is \<open>\<le> 0\<close>, clearance included, so clearance 0 becomes the default 0.4.
\<close>

theorem normalize_clearance_zero_counterexample:
  "\<not> (\<forall>p c. clearance p = Fin c \<and> 0 \<le> c \<longrightarrow> clearance (normalizeParams p) = clearance p)"
proof
  assume "\<forall>p c. clearance p = Fin c \<and> 0 \<le> c \<longrightarrow> clearance (normalizeParams p) = clearance p"
  then have "clearance (defaults\<lparr>clearance := Fin 0\<rparr>) = Fin 0 \<and> (0::real) \<le> 0
      \<longrightarrow> clearance (normalizeParams (defaults\<lparr>clearance := Fin 0\<rparr>))
          = clearance (defaults\<lparr>clearance := Fin 0\<rparr>)"
    by blast
  then show False by (simp add: normalizeParams_eq orDefault_def)
qed

text \<open>
  Claim C6 as amended: a finite clearance is returned unchanged when it is greater than
  0, and replaced by the default clearance otherwise.
\<close>

theorem normalize_clearance:
  "clearance p = Fin c \<Longrightarrow>
     clearance (normalizeParams p) = (if 0 < c then Fin c else clearance defaults)"
  by (simp add: normalizeParams_eq orDefault_def defaults_def)

text \<open>Witness for C6: clearance 1.5 is kept; 0 and -3 become 0.4.\<close>

theorem normalize_clearance_witness:
  "clearance (normalizeParams (defaults\<lparr>clearance := Fin 1.5\<rparr>)) = Fin 1.5
   \<and> clearance (normalizeParams (defaults\<lparr>clearance := Fin 0\<rparr>)) = Fin 0.4
   \<and> clearance (normalizeParams (defaults\<lparr>clearance := Fin (- 3)\<rparr>)) = Fin 0.4"
  using normalize_clearance [of "defaults\<lparr>clearance := Fin 1.5\<rparr>" "1.5"]
    normalize_clearance [of "defaults\<lparr>clearance := Fin 0\<rparr>" "0"]
    normalize_clearance [of "defaults\<lparr>clearance := Fin (- 3)\<rparr>" "- 3"]
  by (simp add: defaults_def)

text \<open>
  Claim C9: for inputs whose seven numeric fields are finite and positive, with
  lipWidth < faceWidth and lipDepth < profileDepth, normalising twice gives the same
  as normalising once. (Such an input is in fact returned as it is.)
\<close>

theorem normalize_idempotent:
  assumes "finitePositive (width p)" "finitePositive (height p)"
    "finitePositive (faceWidth p)" "finitePositive (profileDepth p)"
    "finitePositive (lipWidth p)" "finitePositive (lipDepth p)"
    "finitePositive (clearance p)"
    "jlt (lipWidth p) (faceWidth p)" "jlt (lipDepth p) (profileDepth p)"
  shows "normalizeParams (normalizeParams p) = normalizeParams p \<and> normalizeParams p = p"
proof -
  have fp: "\<And>v. finitePositive v \<Longrightarrow> Fin (orDefault v d) = v" for d
    by (case_tac v) (simp_all add: finitePositive_def orDefault_def)
  have lt: "\<And>u v. finitePositive u \<Longrightarrow> finitePositive v \<Longrightarrow> jlt u v
      \<Longrightarrow> normLip (orDefault v e) (orDefault u d) f = orDefault u d" for d e f
    by (case_tac u; case_tac v) (simp_all add: finitePositive_def orDefault_def normLip_def)
  have "normalizeParams p =
      \<lparr> width = width p, height = height p, faceWidth = faceWidth p,
        profileDepth = profileDepth p, lipWidth = lipWidth p, lipDepth = lipDepth p,
        clearance = clearance p, style = style p \<rparr>"
    by (subst normalizeParams_eq)
       (simp only: lt [OF assms(5) assms(3) assms(8)] lt [OF assms(6) assms(4) assms(9)]
          fp [OF assms(1)] fp [OF assms(2)] fp [OF assms(3)] fp [OF assms(4)]
          fp [OF assms(5)] fp [OF assms(6)] fp [OF assms(7)])
  then have "normalizeParams p = p" by simp
  then show ?thesis by simp
qed

text \<open>Witness for C9: the default parameters.\<close>

theorem normalize_idempotent_witness:
  "normalizeParams (normalizeParams defaults) = normalizeParams defaults
   \<and> normalizeParams defaults = defaults"
  using normalize_idempotent [of defaults]
  by (simp add: defaults_def finitePositive_def)

section \<open>Profiles and derived lengths\<close>

lemma jadd_Fin: "jadd (Fin a) (Fin b) = Fin (a + b)"
  by simp

lemma normalize_defaults: "normalizeParams defaults = defaults"
  by (simp add: normalizeParams_eq defaults_def orDefault_def normLip_def)

text \<open>
  Claim C5: on normalised parameters \<open>buildProfileShape\<close> is the L-shaped ring through
  (0,0), (faceWidth,0), (faceWidth,profileDepth), (faceWidth-lipWidth,profileDepth),
  (faceWidth-lipWidth,lipDepth), (0,lipDepth) and back to (0,0), and the lip overlay's
  shape (built inside \<open>createLipOverlay\<close>) is a ring of five points that starts and ends
  at (-faceWidth/2, -profileDepth/2).
\<close>

theorem profile_rings:
  "\<exists>fw pd lw ld.
      faceWidth (normalizeParams p) = Fin fw \<and> profileDepth (normalizeParams p) = Fin pd
      \<and> lipWidth (normalizeParams p) = Fin lw \<and> lipDepth (normalizeParams p) = Fin ld
      \<and> buildProfileShape (faceWidth (normalizeParams p)) (profileDepth (normalizeParams p))
            (lipWidth (normalizeParams p)) (lipDepth (normalizeParams p))
          = [MoveTo (Fin 0) (Fin 0), LineTo (Fin fw) (Fin 0), LineTo (Fin fw) (Fin pd),
             LineTo (Fin (fw - lw)) (Fin pd), LineTo (Fin (fw - lw)) (Fin ld),
             LineTo (Fin 0) (Fin ld), LineTo (Fin 0) (Fin 0)]
      \<and> lipShape (normalizeParams p)
          = [MoveTo (Fin (- fw / 2)) (Fin (- pd / 2)),
             LineTo (Fin (- fw / 2 + lw)) (Fin (- pd / 2)),
             LineTo (Fin (- fw / 2 + lw)) (Fin (- pd / 2 + ld)),
             LineTo (Fin (- fw / 2)) (Fin (- pd / 2 + ld)),
             LineTo (Fin (- fw / 2)) (Fin (- pd / 2))]"
  by (simp add: normalizeParams_eq buildProfileShape_def lipShape_def jsub_Fin)

text \<open>
  Claim C7: on normalised parameters innerWidth = width + 2 clearance, innerHeight =
  height + 2 clearance, horizontalLength = innerWidth + 2 lipWidth, verticalLength =
  innerHeight + 2 lipWidth, outerWidth = innerWidth + 2 faceWidth, outerHeight =
  innerHeight + 2 faceWidth; the defaults give 600.8, 400.8, 608.8, 408.8, 640.8 and
  440.8.
\<close>

theorem derived_dimensions:
  "(\<exists>w h fw lw c.
      width (normalizeParams p) = Fin w \<and> height (normalizeParams p) = Fin h
      \<and> faceWidth (normalizeParams p) = Fin fw \<and> lipWidth (normalizeParams p) = Fin lw
      \<and> clearance (normalizeParams p) = Fin c
      \<and> innerWidth (normalizeParams p) = Fin (w + 2 * c)
      \<and> innerHeight (normalizeParams p) = Fin (h + 2 * c)
      \<and> horizontalLength (normalizeParams p) = Fin ((w + 2 * c) + 2 * lw)
      \<and> verticalLength (normalizeParams p) = Fin ((h + 2 * c) + 2 * lw)
      \<and> outerWidth (normalizeParams p) = Fin ((w + 2 * c) + 2 * fw)
      \<and> outerHeight (normalizeParams p) = Fin ((h + 2 * c) + 2 * fw))
   \<and> innerWidth (normalizeParams defaults) = Fin 600.8
   \<and> innerHeight (normalizeParams defaults) = Fin 400.8
   \<and> horizontalLength (normalizeParams defaults) = Fin 608.8
   \<and> verticalLength (normalizeParams defaults) = Fin 408.8
   \<and> outerWidth (normalizeParams defaults) = Fin 640.8
   \<and> outerHeight (normalizeParams defaults) = Fin 440.8"
proof -
  have gen: "\<exists>w h fw lw c.
      width (normalizeParams p) = Fin w \<and> height (normalizeParams p) = Fin h
      \<and> faceWidth (normalizeParams p) = Fin fw \<and> lipWidth (normalizeParams p) = Fin lw
      \<and> clearance (normalizeParams p) = Fin c
      \<and> innerWidth (normalizeParams p) = Fin (w + 2 * c)
      \<and> innerHeight (normalizeParams p) = Fin (h + 2 * c)
      \<and> horizontalLength (normalizeParams p) = Fin ((w + 2 * c) + 2 * lw)
      \<and> verticalLength (normalizeParams p) = Fin ((h + 2 * c) + 2 * lw)
      \<and> outerWidth (normalizeParams p) = Fin ((w + 2 * c) + 2 * fw)
      \<and> outerHeight (normalizeParams p) = Fin ((h + 2 * c) + 2 * fw)"
    by (simp add: normalizeParams_eq innerWidth_def innerHeight_def horizontalLength_def
          verticalLength_def outerWidth_def outerHeight_def mult.commute)
  have vals: "innerWidth defaults = Fin 600.8" "innerHeight defaults = Fin 400.8"
    "horizontalLength defaults = Fin 608.8" "verticalLength defaults = Fin 408.8"
    "outerWidth defaults = Fin 640.8" "outerHeight defaults = Fin 440.8"
    by (simp_all add: defaults_def innerWidth_def innerHeight_def horizontalLength_def
          verticalLength_def outerWidth_def outerHeight_def)
  from gen normalize_defaults vals show ?thesis by simp
qed

section \<open>The end taper\<close>

lemma miterVertex_real:
  "miterVertex (Fin fw) (Fin pd) (Fin h) (Fin sp) (Fin x, Fin y, Fin z) =
     (let d = h - \<bar>z\<bar>;
          sk = (if 0 \<le> d \<and> d < sp then (fw + 0.8 * pd) * (1 - d / sp) * sgn z else 0)
      in (Fin (x + sk), Fin (y + 0.55 * sk), Fin z))"
  by (simp add: miterVertex_def Let_def jsub_Fin jge_Fin mult.commute)

lemma addMiterEnds_Fin:
  assumes "faceWidth p = Fin fw" "profileDepth p = Fin pd"
  shows "attr_position (addMiterEnds (g\<lparr>attr_position := map (\<lambda>(x, y, z). (Fin x, Fin y, Fin z)) vs\<rparr>) (Fin len) p)
    = map (\<lambda>(x, y, z). (Fin (x + taperSkew fw pd len z), Fin (y + 0.55 * taperSkew fw pd len z), Fin z)) vs"
  by (simp add: addMiterEnds_def Let_def assms jmax_Fin miterVertex_real taperSkew_def
        split_def comp_def)

lemma taperSkew_zero: "taperSpan \<le> len / 2 - \<bar>z\<bar> \<Longrightarrow> taperSpan = 1.1 * max fw pd \<Longrightarrow> taperSkew fw pd len z = 0"
  by (simp add: taperSkew_def Let_def)

lemma taperSkew_mono:
  assumes "0 < fw" "0 < pd" "sgn z1 = sgn z2" "\<bar>z1\<bar> \<le> \<bar>z2\<bar>" "\<bar>z2\<bar> \<le> len / 2"
  shows "\<bar>taperSkew fw pd len z1\<bar> \<le> \<bar>taperSkew fw pd len z2\<bar>"
proof -
  define span where "span = 1.1 * max fw pd"
  define k where "k = fw + 0.8 * pd"
  define d1 where "d1 = len / 2 - \<bar>z1\<bar>"
  define d2 where "d2 = len / 2 - \<bar>z2\<bar>"
  have span_pos: "0 < span" using assms(1) by (simp add: span_def max_def)
  have k_pos: "0 < k" using assms(1,2) by (simp add: k_def)
  have d: "0 \<le> d2" "d2 \<le> d1" using assms(4,5) by (simp_all add: d1_def d2_def)
  have s1: "taperSkew fw pd len z1 = (if 0 \<le> d1 \<and> d1 < span then k * (1 - d1 / span) * sgn z1 else 0)"
    by (simp add: taperSkew_def Let_def span_def k_def d1_def)
  have s2: "taperSkew fw pd len z2 = (if 0 \<le> d2 \<and> d2 < span then k * (1 - d2 / span) * sgn z2 else 0)"
    by (simp add: taperSkew_def Let_def span_def k_def d2_def)
  show ?thesis
  proof (cases "d1 < span")
    case False
    then show ?thesis by (simp add: s1)
  next
    case True
    with d have in1: "0 \<le> d1 \<and> d1 < span" and in2: "0 \<le> d2 \<and> d2 < span" by simp_all
    have frac: "d2 / span \<le> d1 / span" using d(2) span_pos by (simp add: divide_right_mono)
    have nn1: "0 \<le> 1 - d1 / span" using in1 span_pos by simp
    have "k * (1 - d1 / span) \<le> k * (1 - d2 / span)"
      using frac k_pos by simp
    moreover have "0 \<le> k * (1 - d1 / span)" using nn1 k_pos by simp
    ultimately have "\<bar>k * (1 - d1 / span)\<bar> * \<bar>sgn z2\<bar> \<le> \<bar>k * (1 - d2 / span)\<bar> * \<bar>sgn z2\<bar>"
      by (intro mult_right_mono) simp_all
    then show ?thesis
      by (simp add: s1 s2 in1 in2 assms(3) abs_mult)
  qed
qed

text \<open>
  Claim C4 says that for every style and every piece the extrusion applies the end
  taper. As stated it fails on \<open>src/js/app.js\<close>, whose \<open>createPiece\<close> has no taper step:
  on the default parameters the end vertex of a top rail stays where the recentring
  put it, while the taper asks for a skew of -31.2 there and the other variant's
  \<open>createPiece\<close> applies it.
\<close>

theorem appjs_piece_untapered:
  "attr_position (geometry (createPiece_appjs prismExtrude (Fin 608.8) ''horizontal'' defaults)) ! 0
       = (Fin (- 304.4), Fin (- 7), Fin 10)
   \<and> attr_position (geometry (createPiece prismExtrude (Fin 608.8) ''horizontal'' defaults)) ! 0
       = (Fin (- 304.4), Fin (- 24.16), Fin 41.2)
   \<and> taperSkew 20 14 608.8 (- 304.4) = - 31.2"
  by (simp add: createPiece_appjs_def createPiece_def Let_def newMesh_def defaults_def
        prismExtrude_def buildProfileShape_def translate_def addMiterEnds_def jmax_Fin
        miterVertex_real rotateY_def jsub_Fin taperSkew_def)

text \<open>
  Claim C4 as amended, for the variant that has \<open>addMiterEnds\<close>: whatever the style and
  the orientation, \<open>createPiece\<close> passes the recentred extrusion through \<open>addMiterEnds\<close>
  before the wood treatment and the rotation; \<open>addMiterEnds\<close> moves a vertex (x, y, z) to
  (x + skew, y + 0.55 skew, z) with the skew of the specification, which is
  (faceWidth + 0.8 profileDepth) (1 - distanceFromEnd / taperSpan) sign(z) exactly when
  0 \<le> distanceFromEnd < taperSpan and 0 otherwise; so a vertex with distanceFromEnd
  \<ge> taperSpan is not displaced, and between two vertices on the same side of the
  middle, within the length of the piece, the one nearer the end is displaced at least
  as much.
\<close>

theorem end_taper:
  assumes "faceWidth p = Fin fw" "profileDepth p = Fin pd" "0 < fw" "0 < pd"
  shows
    "geometry (createPiece ext (Fin len) orientation p) =
       (let g = ext (buildProfileShape (faceWidth p) (profileDepth p) (lipWidth p) (lipDepth p))
                  \<lparr> depth = Fin len, bevelEnabled = (style p = ''bold''),
                    bevelThickness = Some (if style p = ''bold'' then Fin 1.2 else Fin 0),
                    bevelSize = Some (if style p = ''bold'' then Fin 0.8 else Fin 0),
                    bevelSegments = Some 2 \<rparr>;
            g = translate (Fin (- fw / 2)) (Fin (- pd / 2)) (Fin (- len / 2)) g;
            g = addMiterEnds g (Fin len) p;
            g = (if style p = ''wood'' then carveWoodgrain g (Fin len) (Fin 0.55) else g)
        in if orientation = ''horizontal'' then rotateY (Fin (pi / 2)) g
           else if orientation = ''vertical'' then rotateX (Fin (- pi / 2)) g else g)
     \<and> attr_position (addMiterEnds
           (g0\<lparr>attr_position := map (\<lambda>(x, y, z). (Fin x, Fin y, Fin z)) vs\<rparr>) (Fin len) p)
         = map (\<lambda>(x, y, z). (Fin (x + taperSkew fw pd len z),
                              Fin (y + 0.55 * taperSkew fw pd len z), Fin z)) vs
     \<and> (1.1 * max fw pd \<le> len / 2 - \<bar>z\<bar> \<longrightarrow> taperSkew fw pd len z = 0)
     \<and> (sgn z1 = sgn z2 \<and> \<bar>z1\<bar> \<le> \<bar>z2\<bar> \<and> \<bar>z2\<bar> \<le> len / 2 \<longrightarrow>
          \<bar>taperSkew fw pd len z1\<bar> \<le> \<bar>taperSkew fw pd len z2\<bar>)"
proof -
  have a: "geometry (createPiece ext (Fin len) orientation p) =
       (let g = ext (buildProfileShape (faceWidth p) (profileDepth p) (lipWidth p) (lipDepth p))
                  \<lparr> depth = Fin len, bevelEnabled = (style p = ''bold''),
                    bevelThickness = Some (if style p = ''bold'' then Fin 1.2 else Fin 0),
                    bevelSize = Some (if style p = ''bold'' then Fin 0.8 else Fin 0),
                    bevelSegments = Some 2 \<rparr>;
            g = translate (Fin (- fw / 2)) (Fin (- pd / 2)) (Fin (- len / 2)) g;
            g = addMiterEnds g (Fin len) p;
            g = (if style p = ''wood'' then carveWoodgrain g (Fin len) (Fin 0.55) else g)
        in if orientation = ''horizontal'' then rotateY (Fin (pi / 2)) g
           else if orientation = ''vertical'' then rotateX (Fin (- pi / 2)) g else g)"
    by (simp add: createPiece_def Let_def newMesh_def assms(1,2))
  have b: "1.1 * max fw pd \<le> len / 2 - \<bar>z\<bar> \<longrightarrow> taperSkew fw pd len z = 0"
    using taperSkew_zero [of "1.1 * max fw pd" len z fw pd] by blast
  have c: "sgn z1 = sgn z2 \<and> \<bar>z1\<bar> \<le> \<bar>z2\<bar> \<and> \<bar>z2\<bar> \<le> len / 2 \<longrightarrow>
          \<bar>taperSkew fw pd len z1\<bar> \<le> \<bar>taperSkew fw pd len z2\<bar>"
    using taperSkew_mono [OF assms(3,4)] by blast
  from a addMiterEnds_Fin [OF assms(1,2)] b c show ?thesis by blast
qed

text \<open>
  Witness for C4: the default parameters and a top rail of length 608.8; the end
  vertex (-10, -7, -304.4) moves to (-41.2, -24.16, -304.4), the middle stays.
\<close>

theorem end_taper_witness:
  "attr_position (addMiterEnds
       (\<lparr>attr_position = [(Fin (- 10), Fin (- 7), Fin (- 304.4)), (Fin (- 10), Fin (- 7), Fin 0)],
         parameters_depth = None\<rparr>) (Fin 608.8) defaults)
     = [(Fin (- 41.2), Fin (- 24.16), Fin (- 304.4)), (Fin (- 10), Fin (- 7), Fin 0)]
   \<and> taperSkew 20 14 608.8 0 = 0
   \<and> \<bar>taperSkew 20 14 608.8 (- 300)\<bar> \<le> \<bar>taperSkew 20 14 608.8 (- 304.4)\<bar>
   \<and> attr_position (geometry (createPiece prismExtrude (Fin 608.8) ''horizontal'' defaults)) ! 0
       = (Fin (- 304.4), Fin (- 24.16), Fin 41.2)"
proof -
  have t2: "taperSkew 20 14 608.8 0 = 0"
    by (simp add: taperSkew_def)
  note w = end_taper [where p = defaults and fw = 20 and pd = 14 and len = "608.8"
      and ext = prismExtrude and orientation = "''horizontal''"
      and vs = "[(- 10, - 7, - 304.4), (- 10, - 7, 0)]"
      and ?g0.0 = "\<lparr>attr_position = [], parameters_depth = None\<rparr>"
      and z = 0 and ?z1.0 = "- 300" and ?z2.0 = "- 304.4"]
  have h: "faceWidth defaults = Fin 20" "profileDepth defaults = Fin 14" "(0::real) < 20" "(0::real) < 14"
    by (simp_all add: defaults_def)
  note w' = w [OF h]
  have first: "attr_position (addMiterEnds
       (\<lparr>attr_position = [(Fin (- 10), Fin (- 7), Fin (- 304.4)), (Fin (- 10), Fin (- 7), Fin 0)],
         parameters_depth = None\<rparr>) (Fin 608.8) defaults)
     = [(Fin (- 41.2), Fin (- 24.16), Fin (- 304.4)), (Fin (- 10), Fin (- 7), Fin 0)]"
    using w' by (simp add: taperSkew_def)
  have mono: "\<bar>taperSkew 20 14 608.8 (- 300)\<bar> \<le> \<bar>taperSkew 20 14 608.8 (- 304.4)\<bar>"
    using w' by simp
  have geo: "attr_position (geometry (createPiece prismExtrude (Fin 608.8) ''horizontal'' defaults)) ! 0
       = (Fin (- 304.4), Fin (- 24.16), Fin 41.2)"
    by (simp add: createPiece_def Let_def newMesh_def defaults_def prismExtrude_def
          buildProfileShape_def translate_def addMiterEnds_def jmax_Fin miterVertex_real
          rotateY_def jsub_Fin)
  from first t2 mono geo show ?thesis by blast
qed

section \<open>Assembling the frame\<close>

lemma setPosition_keeps:
  "geometry (setPositionX v m) = geometry m" "material (setPositionX v m) = material m"
  "geometry (setPositionY v m) = geometry m" "material (setPositionY v m) = material m"
  by (simp_all add: setPositionX_def setPositionY_def split: prod.splits)

text \<open>
  Claim C1: for every parameter set the assembly runs to completion without raising an
  error and returns a frame with the four rails, the four lip overlays and the corner
  inserts. The one statement of \<open>buildFrame\<close> that can throw is the read of \<open>lipDepth\<close>,
  which the function does not declare. The module dereferences \<open>ui.lipDepth\<close>, the page
  element with the id lipDepth, in \<open>setDefaults\<close> and in \<open>readParams\<close> before every
  build, so where \<open>buildFrame\<close> runs the page has that element, the global scope
  binds its id, and the read yields a value. For every value read, every parameter
  set, every extrusion and every prior state, \<open>buildFrame\<close> returns; the new group
  replaces the old one in the scene and holds, in this order, the top and bottom
  rails, the left and right rails, their four overlays, and four copies of one corner
  insert.
\<close>

theorem buildFrame_runs_to_completion:
  "\<exists>s' top bottom left right lipTop lipBottom lipLeft lipRight i0 i1 i2 i3.
     buildFrame ext (Some v) p s = Inr s'
     \<and> frameGroup s' = Some [top, bottom, left, right, lipTop, lipBottom, lipLeft, lipRight,
                              i0, i1, i2, i3]
     \<and> scene s' = (case frameGroup s of Some old \<Rightarrow> remove1 old (scene s) | None \<Rightarrow> scene s)
                    @ [[top, bottom, left, right, lipTop, lipBottom, lipLeft, lipRight,
                        i0, i1, i2, i3]]
     \<and> top = setPositionY (jadd (offsetY (normalizeParams p))
                 (jdiv (jsub (faceWidth (normalizeParams p)) (lipWidth (normalizeParams p))) (Fin 2)))
               (createPiece ext (horizontalLength (normalizeParams p)) ''horizontal'' (normalizeParams p))
     \<and> geometry bottom = geometry top \<and> material bottom = material top
     \<and> left = setPositionX (jneg (jadd (offsetX (normalizeParams p))
                 (jdiv (jsub (faceWidth (normalizeParams p)) (lipWidth (normalizeParams p))) (Fin 2))))
               (createPiece ext (verticalLength (normalizeParams p)) ''vertical'' (normalizeParams p))
     \<and> geometry right = geometry left \<and> material right = material left
     \<and> lipTop = (createLipOverlay ext (horizontalLength (normalizeParams p)) ''horizontal''
                   (normalizeParams p))\<lparr>position := position top\<rparr>
     \<and> lipBottom = lipTop\<lparr>position := position bottom\<rparr>
     \<and> lipLeft = (createLipOverlay ext (verticalLength (normalizeParams p)) ''vertical''
                   (normalizeParams p))\<lparr>position := position left\<rparr>
     \<and> lipRight = lipLeft\<lparr>position := position right\<rparr>
     \<and> map geometry [i0, i1, i2, i3]
         = [geometry (createCornerInsert ext (normalizeParams p)),
            geometry (createCornerInsert ext (normalizeParams p)),
            geometry (createCornerInsert ext (normalizeParams p)),
            geometry (createCornerInsert ext (normalizeParams p))]
     \<and> map material [i0, i1, i2, i3]
         = [material (createCornerInsert ext (normalizeParams p)),
            material (createCornerInsert ext (normalizeParams p)),
            material (createCornerInsert ext (normalizeParams p)),
            material (createCornerInsert ext (normalizeParams p))]"
  by (simp add: buildFrame_def Let_def setPosition_keeps split: option.splits)

text \<open>
  The two ways the undeclared \<open>lipDepth\<close> shows. Were the name unbound, the read would
  throw after the old frame was removed and before anything was added to the new
  group. Bound to something that is not a number, such as the page element, it makes
  the product NaN, and the four inserts are placed at z = NaN.
\<close>

lemma buildFrame_undeclared_lipDepth:
  "buildFrame ext None p s =
     Inl (ReferenceError ''lipDepth'',
          (case frameGroup s of Some old \<Rightarrow> s\<lparr>scene := remove1 old (scene s)\<rparr> | None \<Rightarrow> s)
            \<lparr>frameGroup := Some []\<rparr>)
   \<and> (\<exists>s' grp. buildFrame ext (Some NaN) p s = Inr s' \<and> frameGroup s' = Some grp
         \<and> length grp = 12
         \<and> map (\<lambda>m. snd (snd (position m))) (drop 8 grp) = [NaN, NaN, NaN, NaN])"
  by (simp add: buildFrame_def Let_def)


text \<open>
  Claim C8 says that the corner insert is sized by insertLeg = max(24, 1.4 faceWidth),
  taper = max(6, 0.4 faceWidth) and depth = max(6, 1.1 lipDepth + clearance), is
  recentred to its local origin, does not depend on the rail length, and is placed
  four times as rotated copies. The sizes are as claimed (\<open>cornerInsert_dimensions\<close>), and
  so are the copies when the build completes (\<open>buildFrame_completes\<close>). The recentring
  along z is \<open>-geometry.parameters.depth / 2\<close>: with an extrusion whose \<open>parameters\<close>
  object keeps the depth inside its options, as three.js's does, that read is
  \<open>undefined\<close>, the shift is NaN, and every z coordinate of the insert is NaN.
\<close>

theorem cornerInsert_z_not_recentred:
  "attr_position (geometry (createCornerInsert prismExtrude (normalizeParams defaults))) =
     [(Fin (- 14), Fin (- 14), NaN), (Fin 14, Fin (- 14), NaN), (Fin 14, Fin (- 9.1), NaN),
      (Fin (- 6), Fin (- 9.1), NaN), (Fin (- 6), Fin 14, NaN), (Fin (- 14), Fin 14, NaN),
      (Fin (- 14), Fin (- 14), NaN),
      (Fin (- 14), Fin (- 14), NaN), (Fin 14, Fin (- 14), NaN), (Fin 14, Fin (- 9.1), NaN),
      (Fin (- 6), Fin (- 9.1), NaN), (Fin (- 6), Fin 14, NaN), (Fin (- 14), Fin 14, NaN),
      (Fin (- 14), Fin (- 14), NaN)]"
proof -
  have dflt: "normalizeParams defaults = defaults"
    by (simp add: normalizeParams_eq defaults_def orDefault_def normLip_def)
  show ?thesis
    unfolding dflt
    by (simp add: createCornerInsert_def prismExtrude_def insertShape_def insertSettings_def
          insertLeg_def insertThickness_def taper_def translate_def newMesh_def defaults_def
          Let_def)
qed

lemma cornerInsert_z_undefined:
  "parameters_depth (ext (insertShape p) (insertSettings p)) = None \<Longrightarrow>
     map (\<lambda>v. snd (snd v)) (attr_position (geometry (createCornerInsert ext p)))
       = replicate (length (attr_position (ext (insertShape p) (insertSettings p)))) NaN"
proof -
  have nan: "\<And>z. jadd z NaN = NaN" by (case_tac z) simp_all
  assume "parameters_depth (ext (insertShape p) (insertSettings p)) = None"
  then show ?thesis
    by (simp add: createCornerInsert_def Let_def translate_def newMesh_def nan
          map_replicate_const split_def comp_def)
qed

lemma cornerInsert_dimensions:
  "\<exists>fw pd ld c.
     faceWidth (normalizeParams p) = Fin fw \<and> profileDepth (normalizeParams p) = Fin pd
     \<and> lipDepth (normalizeParams p) = Fin ld \<and> clearance (normalizeParams p) = Fin c
     \<and> insertLeg (normalizeParams p) = Fin (max 24 (1.4 * fw))
     \<and> taper (normalizeParams p) = Fin (max 6 (0.4 * fw))
     \<and> insertThickness (normalizeParams p) = Fin (max 3 (0.35 * pd))
     \<and> depth (insertSettings (normalizeParams p)) = Fin (max 6 (1.1 * ld + c))"
  by (simp add: normalizeParams_eq insertLeg_def taper_def insertThickness_def
        insertSettings_def jmax_Fin mult.commute)

text \<open>With an extrusion that does report the depth there, the insert is centred.\<close>

lemma cornerInsert_centred_if_depth_reported:
  "attr_position (geometry (createCornerInsert prismExtrudeDepth defaults)) =
     [(Fin (- 14), Fin (- 14), Fin (- 3)), (Fin 14, Fin (- 14), Fin (- 3)),
      (Fin 14, Fin (- 9.1), Fin (- 3)), (Fin (- 6), Fin (- 9.1), Fin (- 3)),
      (Fin (- 6), Fin 14, Fin (- 3)), (Fin (- 14), Fin 14, Fin (- 3)),
      (Fin (- 14), Fin (- 14), Fin (- 3)),
      (Fin (- 14), Fin (- 14), Fin 3), (Fin 14, Fin (- 14), Fin 3),
      (Fin 14, Fin (- 9.1), Fin 3), (Fin (- 6), Fin (- 9.1), Fin 3),
      (Fin (- 6), Fin 14, Fin 3), (Fin (- 14), Fin 14, Fin 3),
      (Fin (- 14), Fin (- 14), Fin 3)]"
  by (simp add: createCornerInsert_def prismExtrudeDepth_def prismExtrude_def insertShape_def
        insertSettings_def insertLeg_def insertThickness_def taper_def translate_def
        newMesh_def defaults_def Let_def)

text \<open>
  The frame that a build leaves depends on the raw parameters only through their
  normal form, and not on the module state before the build.
\<close>

lemma build_from_normal_form:
  "normalizeParams p = normalizeParams q \<Longrightarrow>
     frameOf (buildFrame ext glob p s) = frameOf (buildFrame ext glob q t)
     \<and> isl (buildFrame ext glob p s) = isl (buildFrame ext glob q t)
     \<and> downloadZip ext p = downloadZip ext q"
  by (cases glob) (simp_all add: buildFrame_def downloadZip_def frameOf_def Let_def)






end
